theory Spec2Isabelle
  imports Complex_Main
begin

section \<open>Birth registration service: admission and data-integrity layer\<close>

text \<open>
  A shallow embedding of \<^verbatim>\<open>main.py\<close>: the fixed-window rate limiter
  (\<^verbatim>\<open>rate_limit\<close>), the request model \<^verbatim>\<open>BirthData\<close>, the table
  \<^verbatim>\<open>births\<close> and the three handlers \<^verbatim>\<open>save_data\<close>,
  \<^verbatim>\<open>delete_old_entries\<close> and \<^verbatim>\<open>search_data\<close>.

  A Python \<^verbatim>\<open>str\<close> is a sequence of Unicode code points and \<^verbatim>\<open>len\<close>
  counts code points, so text is a list of code points here. SQLite compares
  \<^verbatim>\<open>TEXT\<close> values bytewise on their UTF-8 encoding, which orders them as
  the lexicographic order of their code points does.
\<close>

type_synonym pystr = "nat list"

subsection \<open>String literals of the source\<close>

definition unified_number :: pystr where
  "unified_number = [1585, 1602, 1605, 32, 1575, 1604, 1605, 1608, 1581, 1583, 1577]"

definition civil_registry_number :: pystr where
  "civil_registry_number =
     [1585, 1602, 1605, 32, 1607, 1608, 1610, 1577, 32, 1575, 1604, 1571, 1581, 1608, 1575, 1604]"

definition rate_limit_detail :: pystr where
  "rate_limit_detail =
     [1578, 1605, 32, 1578, 1580, 1575, 1608, 1586, 32, 1575, 1604, 1581, 1583, 32, 1575, 1604,
      1605, 1587, 1605, 1608, 1581, 32, 1576, 1607, 32, 1605, 1606, 32, 1575, 1604, 1591, 1604,
      1576, 1575, 1578, 46, 32, 1575, 1604, 1585, 1580, 1575, 1569, 32, 1575, 1604, 1605, 1581,
      1575, 1608, 1604, 1577, 32, 1604, 1575, 1581, 1602, 1575, 1611, 46]"

definition father_type_detail :: pystr where
  "father_type_detail =
     [1606, 1608, 1593, 32, 1585, 1602, 1605, 32, 1575, 1604, 1571, 1576, 32, 1594, 1610, 1585,
      32, 1589, 1581, 1610, 1581, 46]"

definition mother_type_detail :: pystr where
  "mother_type_detail =
     [1606, 1608, 1593, 32, 1585, 1602, 1605, 32, 1575, 1604, 1571, 1605, 32, 1594, 1610, 1585,
      32, 1589, 1581, 1610, 1581, 46]"

definition duplicate_prefix :: pystr where
  "duplicate_prefix =
     [1578, 1605, 32, 1573, 1583, 1582, 1575, 1604, 32, 1607, 1584, 1607, 32, 1575, 1604, 1576,
      1610, 1575, 1606, 1575, 1578, 32, 1576, 1575, 1604, 1601, 1593, 1604, 32, 1601, 1610, 32,
      1605, 1587, 1578, 1588, 1601, 1609, 32]"

definition not_found_detail :: pystr where
  "not_found_detail =
     [1604, 1605, 32, 1610, 1578, 1605, 32, 1575, 1604, 1593, 1579, 1608, 1585, 32, 1593, 1604,
      1609, 32, 1576, 1610, 1575, 1606, 1575, 1578, 46]"

subsection \<open>Exceptions\<close>

text \<open>
  \<open>HTTPException status detail\<close> is the exception FastAPI turns into a response with that
  status. The other constructors are the exceptions the handlers can meet below:
  a dictionary read of a missing key, an integer that does not fit SQLite's 64-bit
  \<^verbatim>\<open>INTEGER\<close>, and SQLite refusing an insert once the largest row id has been used.
\<close>

datatype exn =
    HTTPException int pystr
  | KeyError string
  | OverflowError
  | OperationalError

subsection \<open>Rate limiter\<close>

text \<open>
  The two dictionaries \<^verbatim>\<open>last_reset\<close> and \<^verbatim>\<open>call_count\<close> of one decorated
  function, keyed by \<^verbatim>\<open>func.__name__\<close>. \<^verbatim>\<open>time.time()\<close> is read once per call
  and is an input of the model; its floating-point value is taken as a real number.
\<close>

record limiter =
  last_reset :: "string \<rightharpoonup> real"
  call_count :: "string \<rightharpoonup> int"

definition fresh_limiter :: limiter where
  "fresh_limiter = \<lparr>last_reset = Map.empty, call_count = Map.empty\<rparr>"

text \<open>
  The part of \<^verbatim>\<open>wrapper\<close> that runs before the wrapped function: \<open>Inr ()\<close> lets the
  call through, \<open>Inl e\<close> raises \<open>e\<close>.
\<close>

definition rate_limit ::
  "int \<Rightarrow> int \<Rightarrow> string \<Rightarrow> real \<Rightarrow> limiter \<Rightarrow> (exn + unit) \<times> limiter" where
  "rate_limit calls period name now st =
     (let st1 = (if last_reset st name = None
                 then st\<lparr>last_reset := (last_reset st)(name \<mapsto> now),
                         call_count := (call_count st)(name \<mapsto> 0)\<rparr>
                 else st)
      in case last_reset st1 name of
           None \<Rightarrow> (Inl (KeyError name), st1)
         | Some w \<Rightarrow>
            (let st2 = (if now - w \<ge> real_of_int period
                        then st1\<lparr>last_reset := (last_reset st1)(name \<mapsto> now),
                                 call_count := (call_count st1)(name \<mapsto> 0)\<rparr>
                        else st1)
             in case call_count st2 name of
                  None \<Rightarrow> (Inl (KeyError name), st2)
                | Some c \<Rightarrow>
                   if c \<ge> calls then (Inl (HTTPException 429 rate_limit_detail), st2)
                   else (Inr (), st2\<lparr>call_count := (call_count st2)(name \<mapsto> c + 1)\<rparr>)))"

text \<open>A sequence of calls to one decorated function, at the given clock readings.\<close>

fun run_calls ::
  "int \<Rightarrow> int \<Rightarrow> string \<Rightarrow> real list \<Rightarrow> limiter \<Rightarrow> (exn + unit) list \<times> limiter" where
  "run_calls calls period name [] st = ([], st)"
| "run_calls calls period name (t # ts) st =
     (case rate_limit calls period name t st of
        (r, st') \<Rightarrow>
          (case run_calls calls period name ts st' of
             (rs, st'') \<Rightarrow> (r # rs, st'')))"

text \<open>The outcome of the \<open>i\<close>-th call (from 0) of a window that admits \<open>calls\<close> calls.\<close>

definition window_outcome :: "int \<Rightarrow> nat \<Rightarrow> exn + unit" where
  "window_outcome calls i =
     (if int i < calls then Inr () else Inl (HTTPException 429 rate_limit_detail))"

text \<open>
  The decorator: the gate, then the wrapped function \<open>func\<close> on the state \<open>s\<close> it works
  on. A rejected call does not reach \<open>func\<close>.
\<close>

definition wrapper ::
  "int \<Rightarrow> int \<Rightarrow> string \<Rightarrow> ('s \<Rightarrow> (exn + 'a) \<times> 's) \<Rightarrow> real \<Rightarrow> limiter \<times> 's
     \<Rightarrow> (exn + 'a) \<times> limiter \<times> 's" where
  "wrapper calls period name func now ls =
     (case ls of (lm, s) \<Rightarrow>
        (case rate_limit calls period name now lm of
           (Inl e, lm') \<Rightarrow> (Inl e, lm', s)
         | (Inr u, lm') \<Rightarrow> (case func s of (r, s') \<Rightarrow> (r, lm', s'))))"

subsection \<open>Request model \<^verbatim>\<open>BirthData\<close>\<close>

text \<open>
  A request body is a JSON object: a dictionary from field names to JSON values.
  \<open>JFloat\<close> stands for a JSON number with a fraction or an exponent.
\<close>

datatype json =
    JNull
  | JBool bool
  | JInt int
  | JFloat real
  | JStr pystr
  | JArray "json list"
  | JObject "(string \<times> json) list"

record BirthData =
  father_id_type :: pystr
  father_id :: int
  mother_id_type :: pystr
  mother_id :: int
  mother_name :: pystr
  hospital_name :: pystr
  birth_date :: pystr

datatype verr =
    Missing
  | LiteralError
  | IntParsing
  | StringType
  | StringTooShort
  | StringTooLong
  | StringPatternMismatch

text \<open>The two values of \<^verbatim>\<open>Literal[...]\<close>, shared by both id-type fields.\<close>

definition id_types :: "pystr list" where
  "id_types = [unified_number, civil_registry_number]"

text \<open>
  The pattern \<^verbatim>\<open>^\d{4}-\d{2}-\d{2}$\<close> as a sequence of atoms with their repetition
  counts; \<open>45\<close> is the hyphen. Which code points \<^verbatim>\<open>\d\<close> matches is decided by the
  regular-expression engine of the validation library and is the parameter \<open>dg\<close> of the
  matcher. The anchors are the start and the end of the text.
\<close>

datatype rx_atom = Digit | Lit nat

definition birth_date_pattern :: "(rx_atom \<times> nat) list" where
  "birth_date_pattern = [(Digit, 4), (Lit 45, 1), (Digit, 2), (Lit 45, 1), (Digit, 2)]"

fun match_atom :: "(nat \<Rightarrow> bool) \<Rightarrow> rx_atom \<Rightarrow> nat \<Rightarrow> bool" where
  "match_atom dg Digit c = dg c"
| "match_atom dg (Lit l) c = (c = l)"

fun match_rep :: "(nat \<Rightarrow> bool) \<Rightarrow> rx_atom \<Rightarrow> nat \<Rightarrow> pystr \<Rightarrow> pystr option" where
  "match_rep dg a 0 s = Some s"
| "match_rep dg a (Suc n) [] = None"
| "match_rep dg a (Suc n) (c # s) = (if match_atom dg a c then match_rep dg a n s else None)"

fun match_seq :: "(nat \<Rightarrow> bool) \<Rightarrow> (rx_atom \<times> nat) list \<Rightarrow> pystr \<Rightarrow> pystr option" where
  "match_seq dg [] s = Some s"
| "match_seq dg ((a, n) # p) s =
     (case match_rep dg a n s of None \<Rightarrow> None | Some rest \<Rightarrow> match_seq dg p rest)"

definition full_match :: "(nat \<Rightarrow> bool) \<Rightarrow> (rx_atom \<times> nat) list \<Rightarrow> pystr \<Rightarrow> bool" where
  "full_match dg p s = (match_seq dg p s = Some [])"

text \<open>The ASCII digits, which every engine's \<^verbatim>\<open>\d\<close> contains.\<close>

definition ascii_digit :: "nat \<Rightarrow> bool" where
  "ascii_digit c = (48 \<le> c \<and> c \<le> 57)"

text \<open>
  The field validators. \<open>None\<close> is a field absent from the body (every field is
  required). For an \<^verbatim>\<open>int\<close> field a JSON integer is taken as it is; which other
  JSON values the validation library still converts to an integer (a numeric string,
  a float without fraction) is its own business and is the parameter \<open>lax\<close>.
\<close>

definition validate_literal :: "pystr list \<Rightarrow> json option \<Rightarrow> verr + pystr" where
  "validate_literal allowed v =
     (case v of
        None \<Rightarrow> Inl Missing
      | Some (JStr s) \<Rightarrow> if s \<in> set allowed then Inr s else Inl LiteralError
      | Some _ \<Rightarrow> Inl LiteralError)"

definition validate_int :: "(json \<Rightarrow> int option) \<Rightarrow> json option \<Rightarrow> verr + int" where
  "validate_int lax v =
     (case v of
        None \<Rightarrow> Inl Missing
      | Some (JInt i) \<Rightarrow> Inr i
      | Some j \<Rightarrow> (case lax j of Some i \<Rightarrow> Inr i | None \<Rightarrow> Inl IntParsing))"

definition validate_str ::
  "(nat \<Rightarrow> bool) \<Rightarrow> nat option \<Rightarrow> nat option \<Rightarrow> (rx_atom \<times> nat) list option \<Rightarrow> json option
     \<Rightarrow> verr + pystr" where
  "validate_str dg min_length max_length pattern v =
     (case v of
        None \<Rightarrow> Inl Missing
      | Some (JStr s) \<Rightarrow>
          if (case min_length of Some m \<Rightarrow> length s < m | None \<Rightarrow> False) then Inl StringTooShort
          else if (case max_length of Some m \<Rightarrow> m < length s | None \<Rightarrow> False)
            then Inl StringTooLong
          else if (case pattern of Some p \<Rightarrow> \<not> full_match dg p s | None \<Rightarrow> False)
            then Inl StringPatternMismatch
          else Inr s
      | Some _ \<Rightarrow> Inl StringType)"

definition field_errors :: "string \<Rightarrow> verr + 'a \<Rightarrow> (string \<times> verr) list" where
  "field_errors name r = (case r of Inl e \<Rightarrow> [(name, e)] | Inr v \<Rightarrow> [])"

text \<open>
  Validation of a body against \<^verbatim>\<open>BirthData\<close>: every field is checked, in the order
  of the class, and all errors are reported together.
\<close>

definition validate ::
  "(nat \<Rightarrow> bool) \<Rightarrow> (json \<Rightarrow> int option) \<Rightarrow> (string \<rightharpoonup> json)
     \<Rightarrow> (string \<times> verr) list + BirthData" where
  "validate dg lax body =
     (let r1 = validate_literal id_types (body ''father_id_type'');
          r2 = validate_int lax (body ''father_id'');
          r3 = validate_literal id_types (body ''mother_id_type'');
          r4 = validate_int lax (body ''mother_id'');
          r5 = validate_str dg (Some 2) (Some 100) None (body ''mother_name'');
          r6 = validate_str dg (Some 2) (Some 100) None (body ''hospital_name'');
          r7 = validate_str dg None None (Some birth_date_pattern) (body ''birth_date'');
          errs = field_errors ''father_id_type'' r1 @ field_errors ''father_id'' r2
               @ field_errors ''mother_id_type'' r3 @ field_errors ''mother_id'' r4
               @ field_errors ''mother_name'' r5 @ field_errors ''hospital_name'' r6
               @ field_errors ''birth_date'' r7
      in case r1 of Inl e \<Rightarrow> Inl errs | Inr v1 \<Rightarrow>
         (case r2 of Inl e \<Rightarrow> Inl errs | Inr v2 \<Rightarrow>
         (case r3 of Inl e \<Rightarrow> Inl errs | Inr v3 \<Rightarrow>
         (case r4 of Inl e \<Rightarrow> Inl errs | Inr v4 \<Rightarrow>
         (case r5 of Inl e \<Rightarrow> Inl errs | Inr v5 \<Rightarrow>
         (case r6 of Inl e \<Rightarrow> Inl errs | Inr v6 \<Rightarrow>
         (case r7 of Inl e \<Rightarrow> Inl errs | Inr v7 \<Rightarrow>
            Inr \<lparr>father_id_type = v1, father_id = v2, mother_id_type = v3, mother_id = v4,
                 mother_name = v5, hospital_name = v6, birth_date = v7\<rparr>)))))))"

subsection \<open>The table \<^verbatim>\<open>births\<close>\<close>

text \<open>
  A row has one field for each column of \<^verbatim>\<open>CREATE TABLE births\<close>. The table has no
  column for either id type. \<open>births_seq\<close> is the entry SQLite keeps for an
  \<^verbatim>\<open>AUTOINCREMENT\<close> table: the largest row id it has ever handed out (0 before the
  first insert). Rows are kept in the order of their insertion, the order in which a
  scan returns them.
\<close>

record row =
  row_id :: int
  row_father_id :: int
  row_mother_id :: int
  row_mother_name :: pystr
  row_hospital_name :: pystr
  row_birth_date :: pystr
  row_created_at :: pystr

record store =
  births :: "row list"
  births_seq :: int

definition init_db :: store where
  "init_db = \<lparr>births = [], births_seq = 0\<rparr>"

text \<open>An \<^verbatim>\<open>INTEGER\<close> of SQLite is a signed 64-bit number.\<close>

definition max_rowid :: int where
  "max_rowid = 9223372036854775807"

definition sqlite_int :: "int \<Rightarrow> bool" where
  "sqlite_int i = (- 9223372036854775808 \<le> i \<and> i \<le> 9223372036854775807)"

text \<open>
  The row id of the next insert: one more than the largest id the table holds or has
  ever held.
\<close>

definition next_rowid :: "store \<Rightarrow> int" where
  "next_rowid db = fold max (map row_id (births db)) (births_seq db) + 1"

text \<open>
  \<^verbatim>\<open>WHERE father_id = ? AND mother_id = ?\<close>, and the \<^verbatim>\<open><\<close> of SQLite on two
  \<^verbatim>\<open>TEXT\<close> values.
\<close>

definition same_parents :: "int \<Rightarrow> int \<Rightarrow> row \<Rightarrow> bool" where
  "same_parents f m r = (row_father_id r = f \<and> row_mother_id r = m)"

fun text_less :: "pystr \<Rightarrow> pystr \<Rightarrow> bool" where
  "text_less [] [] = False"
| "text_less [] (y # ys) = True"
| "text_less (x # xs) [] = False"
| "text_less (x # xs) (y # ys) = (x < y \<or> (x = y \<and> text_less xs ys))"

subsection \<open>Handlers\<close>

text \<open>
  What a handler returns on success: the confirmation of \<^verbatim>\<open>save_data\<close>, the
  \<^verbatim>\<open>deleted_count\<close> of \<^verbatim>\<open>delete_old_entries\<close> (its message is built from the
  same number), the rows of \<^verbatim>\<open>search_data\<close>.
\<close>

datatype response = Saved | Deleted int | Data "row list"

text \<open>
  \<^verbatim>\<open>except Exception as e: raise HTTPException(status_code=500, detail=str(e))\<close>.
  Every exception of the model, \<open>HTTPException\<close> included, is an \<^verbatim>\<open>Exception\<close>.
  The text \<^verbatim>\<open>str(e)\<close> is given by the libraries that define the exceptions and is
  the parameter \<open>str\<close>.
\<close>

definition except_500 :: "(exn \<Rightarrow> pystr) \<Rightarrow> exn + 'a \<Rightarrow> exn + 'a" where
  "except_500 str r = (case r of Inl e \<Rightarrow> Inl (HTTPException 500 (str e)) | Inr v \<Rightarrow> Inr v)"

text \<open>
  A reading of \<^verbatim>\<open>datetime.now()\<close> is an input: a naive datetime, that is a record of
  calendar and clock fields, for which earlier and later is the lexicographic order of
  the fields. What \<^verbatim>\<open>now - timedelta(days=n)\<close> is belongs to the calendar arithmetic
  of the library and is the parameter \<open>minus_days\<close> of the purge.
\<close>

record datetime =
  year :: nat
  month :: nat
  day :: nat
  hour :: nat
  minute :: nat
  second :: nat
  microsecond :: nat

text \<open>The ranges of the fields of every datetime object.\<close>

definition valid_datetime :: "datetime \<Rightarrow> bool" where
  "valid_datetime d =
     (1 \<le> year d \<and> year d \<le> 9999 \<and> 1 \<le> month d \<and> month d \<le> 12
      \<and> 1 \<le> day d \<and> day d \<le> 31 \<and> hour d < 24 \<and> minute d < 60 \<and> second d < 60
      \<and> microsecond d < 1000000)"

definition before :: "datetime \<Rightarrow> datetime \<Rightarrow> bool" where
  "before a b =
     (year a < year b \<or> (year a = year b \<and>
     (month a < month b \<or> (month a = month b \<and>
     (day a < day b \<or> (day a = day b \<and>
     (hour a < hour b \<or> (hour a = hour b \<and>
     (minute a < minute b \<or> (minute a = minute b \<and>
     (second a < second b \<or> (second a = second b \<and>
      microsecond a < microsecond b))))))))))))"

text \<open>
  \<^verbatim>\<open>isoformat()\<close> of a naive datetime: \<^verbatim>\<open>YYYY-MM-DDTHH:MM:SS\<close>, followed by
  \<^verbatim>\<open>.ffffff\<close> when the microseconds are not 0. \<open>zero_padded w n\<close> is the decimal
  numeral of \<open>n\<close> in \<open>w\<close> digits, for \<open>n\<close> below \<open>10 ^ w\<close>.
\<close>

fun zero_padded :: "nat \<Rightarrow> nat \<Rightarrow> pystr" where
  "zero_padded 0 n = []"
| "zero_padded (Suc w) n = zero_padded w (n div 10) @ [48 + n mod 10]"

definition isoformat :: "datetime \<Rightarrow> pystr" where
  "isoformat d =
     zero_padded 4 (year d) @ [45] @ zero_padded 2 (month d) @ [45] @ zero_padded 2 (day d)
     @ [84] @ zero_padded 2 (hour d) @ [58] @ zero_padded 2 (minute d) @ [58]
     @ zero_padded 2 (second d)
     @ (if microsecond d = 0 then [] else [46] @ zero_padded 6 (microsecond d))"

definition new_row :: "pystr \<Rightarrow> BirthData \<Rightarrow> store \<Rightarrow> row" where
  "new_row created_at data db =
     \<lparr>row_id = next_rowid db, row_father_id = father_id data, row_mother_id = mother_id data,
      row_mother_name = mother_name data, row_hospital_name = hospital_name data,
      row_birth_date = birth_date data, row_created_at = created_at\<rparr>"

text \<open>The body of the \<^verbatim>\<open>try\<close> block of \<^verbatim>\<open>save_data\<close>.\<close>

definition save_data_try :: "datetime \<Rightarrow> BirthData \<Rightarrow> store \<Rightarrow> (exn + response) \<times> store" where
  "save_data_try now data db =
     (if father_id_type data \<notin> set id_types
        then (Inl (HTTPException 400 father_type_detail), db)
      else if mother_id_type data \<notin> set id_types
        then (Inl (HTTPException 400 mother_type_detail), db)
      else if \<not> sqlite_int (father_id data) \<or> \<not> sqlite_int (mother_id data)
        then (Inl OverflowError, db)
      else case find (same_parents (father_id data) (mother_id data)) (births db) of
             Some r \<Rightarrow> (Inl (HTTPException 400 (duplicate_prefix @ row_hospital_name r)), db)
           | None \<Rightarrow>
               if max_rowid < next_rowid db then (Inl OperationalError, db)
               else (Inr Saved,
                     db\<lparr>births := births db @ [new_row (isoformat now) data db],
                        births_seq := next_rowid db\<rparr>))"

definition save_data ::
  "(exn \<Rightarrow> pystr) \<Rightarrow> datetime \<Rightarrow> BirthData \<Rightarrow> store \<Rightarrow> (exn + response) \<times> store" where
  "save_data str now data db =
     (case save_data_try now data db of (r, db') \<Rightarrow> (except_500 str r, db'))"

definition delete_old_entries ::
  "(exn \<Rightarrow> pystr) \<Rightarrow> (datetime \<Rightarrow> nat \<Rightarrow> datetime) \<Rightarrow> datetime \<Rightarrow> store
     \<Rightarrow> (exn + response) \<times> store" where
  "delete_old_entries str minus_days now db =
     (let cutoff_time = isoformat (minus_days now 30);
          deleted_count =
            int (length (filter (\<lambda>r. text_less (row_created_at r) cutoff_time) (births db)))
      in (except_500 str (Inr (Deleted deleted_count)),
          db\<lparr>births := filter (\<lambda>r. \<not> text_less (row_created_at r) cutoff_time) (births db)\<rparr>))"

text \<open>The body of the \<^verbatim>\<open>try\<close> block of \<^verbatim>\<open>search_data\<close>.\<close>

definition search_data_try :: "int \<Rightarrow> int \<Rightarrow> store \<Rightarrow> exn + response" where
  "search_data_try f m db =
     (if \<not> sqlite_int f \<or> \<not> sqlite_int m then Inl OverflowError
      else (let result = filter (same_parents f m) (births db)
            in if result = [] then Inl (HTTPException 404 not_found_detail)
               else Inr (Data result)))"

definition search_data ::
  "(exn \<Rightarrow> pystr) \<Rightarrow> int \<Rightarrow> int \<Rightarrow> store \<Rightarrow> (exn + response) \<times> store" where
  "search_data str f m db = (except_500 str (search_data_try f m db), db)"

text \<open>
  The handlers as they are registered: each behind its own limiter, with the limit and
  the period of its decorator.
\<close>

definition save_data_endpoint ::
  "(exn \<Rightarrow> pystr) \<Rightarrow> real \<Rightarrow> datetime \<Rightarrow> BirthData \<Rightarrow> limiter \<times> store
     \<Rightarrow> (exn + response) \<times> limiter \<times> store" where
  "save_data_endpoint str clock now data =
     wrapper 10 60 ''save_data'' (save_data str now data) clock"

definition delete_old_entries_endpoint ::
  "(exn \<Rightarrow> pystr) \<Rightarrow> (datetime \<Rightarrow> nat \<Rightarrow> datetime) \<Rightarrow> real \<Rightarrow> datetime
     \<Rightarrow> limiter \<times> store
     \<Rightarrow> (exn + response) \<times> limiter \<times> store" where
  "delete_old_entries_endpoint str minus_days clock now =
     wrapper 5 3600 ''delete_old_entries'' (delete_old_entries str minus_days now) clock"

definition search_data_endpoint ::
  "(exn \<Rightarrow> pystr) \<Rightarrow> real \<Rightarrow> int \<Rightarrow> int \<Rightarrow> limiter \<times> store
     \<Rightarrow> (exn + response) \<times> limiter \<times> store" where
  "search_data_endpoint str clock f m =
     wrapper 20 60 ''search_data'' (search_data str f m) clock"

subsection \<open>Histories of the table\<close>

text \<open>
  A history is a sequence of handler calls, each with its clock reading.
  \<open>persisted\<close> lists, in order, the rows the submissions of a history insert.
\<close>

datatype op = Submit datetime BirthData | Purge datetime | Search int int

fun run_op ::
  "(exn \<Rightarrow> pystr) \<Rightarrow> (datetime \<Rightarrow> nat \<Rightarrow> datetime) \<Rightarrow> op \<Rightarrow> store \<Rightarrow> (exn + response) \<times> store" where
  "run_op str minus_days (Submit now data) db = save_data str now data db"
| "run_op str minus_days (Purge now) db = delete_old_entries str minus_days now db"
| "run_op str minus_days (Search f m) db = search_data str f m db"

fun run_ops ::
  "(exn \<Rightarrow> pystr) \<Rightarrow> (datetime \<Rightarrow> nat \<Rightarrow> datetime) \<Rightarrow> op list \<Rightarrow> store \<Rightarrow> store" where
  "run_ops str minus_days [] db = db"
| "run_ops str minus_days (x # xs) db = run_ops str minus_days xs (snd (run_op str minus_days x db))"

fun inserted :: "(exn \<Rightarrow> pystr) \<Rightarrow> op \<Rightarrow> store \<Rightarrow> row list" where
  "inserted str (Submit now data) db =
     (case fst (save_data str now data db) of
        Inl e \<Rightarrow> []
      | Inr v \<Rightarrow> [new_row (isoformat now) data db])"
| "inserted str (Purge now) db = []"
| "inserted str (Search f m) db = []"

fun persisted ::
  "(exn \<Rightarrow> pystr) \<Rightarrow> (datetime \<Rightarrow> nat \<Rightarrow> datetime) \<Rightarrow> op list \<Rightarrow> store \<Rightarrow> row list" where
  "persisted str minus_days [] db = []"
| "persisted str minus_days (x # xs) db =
     inserted str x db @ persisted str minus_days xs (snd (run_op str minus_days x db))"

subsection \<open>The rejection conditions the specification lists\<close>







text \<open>
  What SQLite maintains for the table: no row id exceeds the recorded largest id, and
  the primary key is unique. \<open>init_db\<close> satisfies it and every handler keeps it.
\<close>

definition store_ok :: "store \<Rightarrow> bool" where
  "store_ok db =
     ((\<forall>r\<in>set (births db). row_id r \<le> births_seq db) \<and> distinct (map row_id (births db)))"

section \<open>Properties of the rate limiter\<close>


lemma rate_limit_known:
  assumes "last_reset st name = Some w" and "call_count st name = Some c"
  shows "rate_limit calls period name now st =
     (if real_of_int period \<le> now - w
      then (if calls \<le> 0
            then (Inl (HTTPException 429 rate_limit_detail),
                  st\<lparr>last_reset := (last_reset st)(name \<mapsto> now),
                     call_count := (call_count st)(name \<mapsto> 0)\<rparr>)
            else (Inr (),
                  st\<lparr>last_reset := (last_reset st)(name \<mapsto> now),
                     call_count := (call_count st)(name \<mapsto> 1)\<rparr>))
      else (if calls \<le> c
            then (Inl (HTTPException 429 rate_limit_detail), st)
            else (Inr (), st\<lparr>call_count := (call_count st)(name \<mapsto> c + 1)\<rparr>)))"
  using assms by (simp add: rate_limit_def Let_def)

lemma rate_limit_unseen:
  assumes "last_reset st name = None"
  shows "rate_limit calls period name now st =
     (if calls \<le> 0
      then (Inl (HTTPException 429 rate_limit_detail),
            st\<lparr>last_reset := (last_reset st)(name \<mapsto> now),
               call_count := (call_count st)(name \<mapsto> 0)\<rparr>)
      else (Inr (),
            st\<lparr>last_reset := (last_reset st)(name \<mapsto> now),
               call_count := (call_count st)(name \<mapsto> 1)\<rparr>))"
  using assms by (simp add: rate_limit_def Let_def)

lemma run_calls_in_window:
  assumes "last_reset st name = Some t0" and "call_count st name = Some c" and "0 \<le> c"
    and "\<forall>t\<in>set ts. t - t0 < real_of_int period"
  shows "fst (run_calls calls period name ts st) =
           map (\<lambda>i. window_outcome calls (nat c + i)) [0..<length ts]
       \<and> last_reset (snd (run_calls calls period name ts st)) name = Some t0"
  using assms
proof (induction ts arbitrary: st c)
  case Nil
  then show ?case by simp
next
  case (Cons t ts)
  have nr: "\<not> real_of_int period \<le> t - t0" using Cons.prems(4) by auto
  have w: "\<forall>t\<in>set ts. t - t0 < real_of_int period" using Cons.prems(4) by simp
  show ?case
  proof (cases "calls \<le> c")
    case True
    have step: "rate_limit calls period name t st = (Inl (HTTPException 429 rate_limit_detail), st)"
      using rate_limit_known[OF Cons.prems(1,2)] nr True by simp
    have ih: "fst (run_calls calls period name ts st) =
           map (\<lambda>i. window_outcome calls (nat c + i)) [0..<length ts]
       \<and> last_reset (snd (run_calls calls period name ts st)) name = Some t0"
      using Cons.IH[OF Cons.prems(1,2,3) w] .
    have all_rej: "\<And>i. window_outcome calls (nat c + i) = Inl (HTTPException 429 rate_limit_detail)"
      using True Cons.prems(3) by (simp add: window_outcome_def)
    show ?thesis using step ih all_rej
      by (simp add: split_beta map_upt_Suc del: upt_Suc)
  next
    case False
    let ?st' = "st\<lparr>call_count := (call_count st)(name \<mapsto> c + 1)\<rparr>"
    have step: "rate_limit calls period name t st = (Inr (), ?st')"
      using rate_limit_known[OF Cons.prems(1,2)] nr False by simp
    have ih: "fst (run_calls calls period name ts ?st') =
           map (\<lambda>i. window_outcome calls (nat (c + 1) + i)) [0..<length ts]
       \<and> last_reset (snd (run_calls calls period name ts ?st')) name = Some t0"
      using Cons.IH[of ?st' "c + 1"] Cons.prems(1,3) w by simp
    have hd: "window_outcome calls (nat c) = Inr ()"
      using False Cons.prems(3) by (simp add: window_outcome_def)
    have sh: "nat (c + 1) = Suc (nat c)" using Cons.prems(3) by simp
    show ?thesis using step ih hd sh
      by (simp add: split_beta map_upt_Suc del: upt_Suc)
  qed
qed

lemma rate_limit_elapsed:
  assumes "last_reset st name = Some w" and "real_of_int period \<le> now - w"
  shows "rate_limit calls period name now st =
     (if calls \<le> 0
      then (Inl (HTTPException 429 rate_limit_detail),
            st\<lparr>last_reset := (last_reset st)(name \<mapsto> now),
               call_count := (call_count st)(name \<mapsto> 0)\<rparr>)
      else (Inr (),
            st\<lparr>last_reset := (last_reset st)(name \<mapsto> now),
               call_count := (call_count st)(name \<mapsto> 1)\<rparr>))"
  using assms by (simp add: rate_limit_def Let_def)

lemma rate_limit_opens_window:
  assumes "last_reset st name = None
           \<or> (\<exists>w. last_reset st name = Some w \<and> real_of_int period \<le> now - w)"
  shows "rate_limit calls period name now st =
     (window_outcome calls 0,
      st\<lparr>last_reset := (last_reset st)(name \<mapsto> now),
         call_count := (call_count st)(name \<mapsto> (if calls \<le> 0 then 0 else 1))\<rparr>)"
  using assms rate_limit_unseen[of st name calls period now]
    rate_limit_elapsed[of st name _ period now calls]
  by (auto simp: window_outcome_def)

lemma run_calls_fresh_window:
  assumes start: "last_reset st name = None
           \<or> (\<exists>w. last_reset st name = Some w \<and> real_of_int period \<le> t0 - w)"
    and within: "\<forall>t\<in>set ts. t - t0 < real_of_int period"
  shows "fst (run_calls calls period name (t0 # ts) st) =
           map (window_outcome calls) [0..<Suc (length ts)]
       \<and> last_reset (snd (run_calls calls period name (t0 # ts) st)) name = Some t0"
proof -
  let ?c = "if calls \<le> 0 then 0 else (1::int)"
  let ?st' = "st\<lparr>last_reset := (last_reset st)(name \<mapsto> t0),
                 call_count := (call_count st)(name \<mapsto> ?c)\<rparr>"
  have step: "rate_limit calls period name t0 st = (window_outcome calls 0, ?st')"
    using rate_limit_opens_window[OF start] .
  have rest: "fst (run_calls calls period name ts ?st') =
           map (\<lambda>i. window_outcome calls (nat ?c + i)) [0..<length ts]
       \<and> last_reset (snd (run_calls calls period name ts ?st')) name = Some t0"
    using run_calls_in_window[of ?st' name t0 ?c ts period calls] within by simp
  have shift: "map (\<lambda>i. window_outcome calls (nat ?c + i)) [0..<length ts]
             = map (\<lambda>i. window_outcome calls (Suc i)) [0..<length ts]"
    by (simp add: window_outcome_def)
  have "map (window_outcome calls) [0..<Suc (length ts)]
      = window_outcome calls 0 # map (\<lambda>i. window_outcome calls (Suc i)) [0..<length ts]"
    by (simp add: map_upt_Suc del: upt_Suc)
  then show ?thesis using step rest shift by (simp add: split_beta del: upt_Suc)
qed

text \<open>
  Claim C3. For a limiter with any limit \<open>calls\<close> and any \<open>period\<close>. First, one call
  on an endpoint seen before, with window start \<open>w\<close> and counter \<open>c\<close>: when
  \<open>now - w \<ge> period\<close> the window is reset to start at \<open>now\<close> with counter 0 before the
  limit is checked; a counter that has reached the limit raises the 429 exception and
  leaves the state as it is; any other call is let through with the counter
  incremented. Second, a sequence of calls that opens a window at \<open>t0\<close> (the endpoint
  is new, or the period has elapsed since the previous window start) and stays inside
  it: the \<open>i\<close>-th call, counted from 0, is let through exactly when \<open>i < calls\<close>, every
  other one raises the 429 exception, and the window still starts at \<open>t0\<close>. So the
  first \<open>calls\<close> calls of a window succeed and the next one fails, also in a window
  opened after an exhausted one.
\<close>

theorem rate_limit_fixed_window:
  "(last_reset st name = Some w \<and> call_count st name = Some c \<longrightarrow>
      rate_limit calls period name now st =
        (if real_of_int period \<le> now - w
         then (if calls \<le> 0
               then (Inl (HTTPException 429 rate_limit_detail),
                     st\<lparr>last_reset := (last_reset st)(name \<mapsto> now),
                        call_count := (call_count st)(name \<mapsto> 0)\<rparr>)
               else (Inr (),
                     st\<lparr>last_reset := (last_reset st)(name \<mapsto> now),
                        call_count := (call_count st)(name \<mapsto> 1)\<rparr>))
         else (if calls \<le> c
               then (Inl (HTTPException 429 rate_limit_detail), st)
               else (Inr (), st\<lparr>call_count := (call_count st)(name \<mapsto> c + 1)\<rparr>))))
   \<and> ((last_reset st name = None
        \<or> (\<exists>w0. last_reset st name = Some w0 \<and> real_of_int period \<le> t0 - w0))
       \<and> (\<forall>t\<in>set ts. t - t0 < real_of_int period) \<longrightarrow>
         fst (run_calls calls period name (t0 # ts) st) =
           map (\<lambda>i. if int i < calls then Inr ()
                     else Inl (HTTPException 429 rate_limit_detail)) [0..<Suc (length ts)]
       \<and> last_reset (snd (run_calls calls period name (t0 # ts) st)) name = Some t0)"
proof (intro conjI impI)
  assume "last_reset st name = Some w \<and> call_count st name = Some c"
  then show "rate_limit calls period name now st =
        (if real_of_int period \<le> now - w
         then (if calls \<le> 0
               then (Inl (HTTPException 429 rate_limit_detail),
                     st\<lparr>last_reset := (last_reset st)(name \<mapsto> now),
                        call_count := (call_count st)(name \<mapsto> 0)\<rparr>)
               else (Inr (),
                     st\<lparr>last_reset := (last_reset st)(name \<mapsto> now),
                        call_count := (call_count st)(name \<mapsto> 1)\<rparr>))
         else (if calls \<le> c
               then (Inl (HTTPException 429 rate_limit_detail), st)
               else (Inr (), st\<lparr>call_count := (call_count st)(name \<mapsto> c + 1)\<rparr>)))"
    using rate_limit_known[of st name w c calls period now] by blast
next
  assume a: "(last_reset st name = None
        \<or> (\<exists>w0. last_reset st name = Some w0 \<and> real_of_int period \<le> t0 - w0))
       \<and> (\<forall>t\<in>set ts. t - t0 < real_of_int period)"
  have wo: "window_outcome calls = (\<lambda>i. if int i < calls then Inr ()
                     else Inl (HTTPException 429 rate_limit_detail))"
    by (rule ext) (simp add: window_outcome_def)
  from a show "fst (run_calls calls period name (t0 # ts) st) =
           map (\<lambda>i. if int i < calls then Inr ()
                     else Inl (HTTPException 429 rate_limit_detail)) [0..<Suc (length ts)]"
    using run_calls_fresh_window[of st name period t0 ts calls] wo by simp
  from a show "last_reset (snd (run_calls calls period name (t0 # ts) st)) name = Some t0"
    using run_calls_fresh_window[of st name period t0 ts calls] by simp
qed

theorem rate_limit_fixed_window_witness:
  "rate_limit 3 60 ''search_data'' 100
     \<lparr>last_reset = [''search_data'' \<mapsto> 0], call_count = [''search_data'' \<mapsto> 3]\<rparr>
   = (Inr (), \<lparr>last_reset = [''search_data'' \<mapsto> 100], call_count = [''search_data'' \<mapsto> 1]\<rparr>)
   \<and> fst (run_calls 3 60 ''search_data'' [100, 110, 120, 159]
       \<lparr>last_reset = [''search_data'' \<mapsto> 0], call_count = [''search_data'' \<mapsto> 3]\<rparr>)
     = [Inr (), Inr (), Inr (), Inl (HTTPException 429 rate_limit_detail)]"
proof -
  note inst = rate_limit_fixed_window[of
      "\<lparr>last_reset = [''search_data'' \<mapsto> 0], call_count = [''search_data'' \<mapsto> 3]\<rparr>"
      "''search_data''" 0 3 3 60 100 100 "[110, 120, 159]"]
  have step: "rate_limit 3 60 ''search_data'' 100
     \<lparr>last_reset = [''search_data'' \<mapsto> 0], call_count = [''search_data'' \<mapsto> 3]\<rparr>
   = (Inr (), \<lparr>last_reset = [''search_data'' \<mapsto> 100], call_count = [''search_data'' \<mapsto> 1]\<rparr>)"
    using inst by (simp del: run_calls.simps)
  have window: "fst (run_calls 3 60 ''search_data'' [100, 110, 120, 159]
       \<lparr>last_reset = [''search_data'' \<mapsto> 0], call_count = [''search_data'' \<mapsto> 3]\<rparr>)
     = [Inr (), Inr (), Inr (), Inl (HTTPException 429 rate_limit_detail)]"
    using inst by (simp del: run_calls.simps add: upt_rec)
  from step window show ?thesis by blast
qed

text \<open>
  Claim C8. A call rejected with the 429 exception leaves the limiter as the call found
  it, unless that very call first opened a window (the endpoint was new or the period
  had elapsed), which happens before the limit is checked and can end in a rejection
  only when the limit is not positive; then the state is the opened window with
  counter 0. With a positive limit, as every decorator of the source has, a rejected
  call changes nothing: neither the counter nor the window start.
\<close>

theorem rejected_call_keeps_limiter:
  assumes "rate_limit calls period name now st = (Inl (HTTPException 429 d), st')"
  shows "(if last_reset st name = None
             \<or> (\<exists>w. last_reset st name = Some w \<and> real_of_int period \<le> now - w)
          then calls \<le> 0
             \<and> st' = st\<lparr>last_reset := (last_reset st)(name \<mapsto> now),
                       call_count := (call_count st)(name \<mapsto> 0)\<rparr>
          else st' = st)
       \<and> (0 < calls \<longrightarrow> st' = st)"
proof (cases "last_reset st name")
  case None
  then show ?thesis
    using assms rate_limit_unseen[of st name calls period now]
    by (auto split: if_splits)
next
  case (Some w)
  show ?thesis
  proof (cases "real_of_int period \<le> now - w")
    case True
    then show ?thesis
      using assms Some rate_limit_elapsed[of st name w period now calls]
      by (auto split: if_splits)
  next
    case False
    then show ?thesis
      using assms Some
      by (auto simp: rate_limit_def Let_def split: if_splits option.splits)
  qed
qed

theorem rejected_call_keeps_limiter_witness:
  "rate_limit 3 60 ''search_data'' 30
     \<lparr>last_reset = [''search_data'' \<mapsto> 0], call_count = [''search_data'' \<mapsto> 3]\<rparr>
   = (Inl (HTTPException 429 rate_limit_detail),
      \<lparr>last_reset = [''search_data'' \<mapsto> 0], call_count = [''search_data'' \<mapsto> 3]\<rparr>)
   \<and> (0::int) < 3"
proof -
  have run: "rate_limit 3 60 ''search_data'' 30
     \<lparr>last_reset = [''search_data'' \<mapsto> 0], call_count = [''search_data'' \<mapsto> 3]\<rparr>
   = (Inl (HTTPException 429 rate_limit_detail),
      snd (rate_limit 3 60 ''search_data'' 30
     \<lparr>last_reset = [''search_data'' \<mapsto> 0], call_count = [''search_data'' \<mapsto> 3]\<rparr>))"
    by (simp add: rate_limit_def Let_def)
  from rejected_call_keeps_limiter[OF run] show ?thesis
    using run by simp
qed

section \<open>Properties of the validator\<close>





lemma match_rep_Suc:
  "match_rep dg a (Suc n) s = Some r \<longleftrightarrow>
     (\<exists>c s'. s = c # s' \<and> match_atom dg a c \<and> match_rep dg a n s' = Some r)"
  by (cases s) auto

lemma match_seq_Cons:
  "match_seq dg ((a, n) # p) s = Some r \<longleftrightarrow>
     (\<exists>rest. match_rep dg a n s = Some rest \<and> match_seq dg p rest = Some r)"
  by (auto split: option.splits)

lemma date_pattern_shape:
  "full_match dg birth_date_pattern s \<longleftrightarrow>
     (\<exists>y1 y2 y3 y4 m1 m2 d1 d2.
        s = [y1, y2, y3, y4, 45, m1, m2, 45, d1, d2]
      \<and> dg y1 \<and> dg y2 \<and> dg y3 \<and> dg y4 \<and> dg m1 \<and> dg m2 \<and> dg d1 \<and> dg d2)"
proof -
  have n4: "(4::nat) = Suc (Suc (Suc (Suc 0)))" and n2: "(2::nat) = Suc (Suc 0)"
    and n1: "(1::nat) = Suc 0"
    by simp_all
  show ?thesis
    unfolding full_match_def birth_date_pattern_def n4 n2 n1
    by (simp only: match_seq_Cons match_rep_Suc match_rep.simps(1) match_seq.simps(1)
          match_atom.simps) auto
qed








lemma validate_Inr:
  "validate dg lax body = Inr data \<longleftrightarrow>
     validate_literal id_types (body ''father_id_type'') = Inr (father_id_type data)
   \<and> validate_int lax (body ''father_id'') = Inr (father_id data)
   \<and> validate_literal id_types (body ''mother_id_type'') = Inr (mother_id_type data)
   \<and> validate_int lax (body ''mother_id'') = Inr (mother_id data)
   \<and> validate_str dg (Some 2) (Some 100) None (body ''mother_name'') = Inr (mother_name data)
   \<and> validate_str dg (Some 2) (Some 100) None (body ''hospital_name'')
       = Inr (hospital_name data)
   \<and> validate_str dg None None (Some birth_date_pattern) (body ''birth_date'')
       = Inr (birth_date data)"
  by (cases data) (auto simp: validate_def Let_def split: sum.splits)

text \<open>
  Claim C6. Whatever text matches the pattern is accepted as a birth date: replacing the
  birth date of an accepted body by any matching text gives an accepted body with that
  birth date. No calendar check takes part; the text 2024-13-40 of the witness is
  accepted.
\<close>

theorem lexical_date_accepted:
  assumes "full_match dg birth_date_pattern s"
    and "validate dg lax body = Inr data"
  shows "validate dg lax (body(''birth_date'' \<mapsto> JStr s)) = Inr (data\<lparr>birth_date := s\<rparr>)"
  using assms by (simp add: validate_Inr validate_str_def)

theorem lexical_date_accepted_witness:
  "full_match ascii_digit birth_date_pattern [50, 48, 50, 52, 45, 49, 51, 45, 52, 48]
   \<and> validate ascii_digit (\<lambda>j. None)
          [''father_id_type'' \<mapsto> JStr unified_number, ''father_id'' \<mapsto> JInt 1,
           ''mother_id_type'' \<mapsto> JStr civil_registry_number, ''mother_id'' \<mapsto> JInt 2,
           ''mother_name'' \<mapsto> JStr [77, 77], ''hospital_name'' \<mapsto> JStr [72, 72],
           ''birth_date'' \<mapsto> JStr [50, 48, 50, 52, 45, 49, 51, 45, 52, 48]]
     = Inr \<lparr>father_id_type = unified_number, father_id = 1,
            mother_id_type = civil_registry_number, mother_id = 2,
            mother_name = [77, 77], hospital_name = [72, 72],
            birth_date = [50, 48, 50, 52, 45, 49, 51, 45, 52, 48]\<rparr>"
proof -
  have m: "full_match ascii_digit birth_date_pattern [50, 48, 50, 52, 45, 49, 51, 45, 52, 48]"
    by (simp add: date_pattern_shape ascii_digit_def)
  have v: "validate ascii_digit (\<lambda>j. None)
          [''father_id_type'' \<mapsto> JStr unified_number, ''father_id'' \<mapsto> JInt 1,
           ''mother_id_type'' \<mapsto> JStr civil_registry_number, ''mother_id'' \<mapsto> JInt 2,
           ''mother_name'' \<mapsto> JStr [77, 77], ''hospital_name'' \<mapsto> JStr [72, 72],
           ''birth_date'' \<mapsto> JStr [50, 48, 50, 52, 45, 48, 49, 45, 48, 49]]
     = Inr \<lparr>father_id_type = unified_number, father_id = 1,
            mother_id_type = civil_registry_number, mother_id = 2,
            mother_name = [77, 77], hospital_name = [72, 72],
            birth_date = [50, 48, 50, 52, 45, 48, 49, 45, 48, 49]\<rparr>"
    by (simp add: validate_Inr validate_literal_def validate_int_def validate_str_def
          id_types_def date_pattern_shape ascii_digit_def)
  from lexical_date_accepted[OF m v] m show ?thesis by simp
qed

section \<open>Properties of the table and the handlers\<close>

text \<open>
  The order of texts is a strict linear order, and ISO texts of datetimes are ordered,
  as texts, the way the datetimes are in time.
\<close>

lemma text_less_irrefl: "\<not> text_less s s"
  by (induction s) auto

lemma text_less_trans: "text_less a b \<Longrightarrow> text_less b c \<Longrightarrow> text_less a c"
  by (induction a b arbitrary: c rule: text_less.induct) (case_tac c; auto)+

lemma text_less_total: "text_less a b \<or> a = b \<or> text_less b a"
  by (induction a b rule: text_less.induct) auto

lemma length_zero_padded [simp]: "length (zero_padded w n) = w"
  by (induction w arbitrary: n) auto

lemma text_less_append:
  "length xs = length ys \<Longrightarrow>
     text_less (xs @ us) (ys @ vs) \<longleftrightarrow> text_less xs ys \<or> (xs = ys \<and> text_less us vs)"
  by (induction xs ys rule: list_induct2) auto

lemma decimal_split_eq:
  "(n::nat) = m \<longleftrightarrow> n div 10 = m div 10 \<and> n mod 10 = m mod 10"
  by (metis div_mult_mod_eq)

lemma decimal_less_aux:
  "(c::nat) < 10 \<Longrightarrow> d < 10 \<Longrightarrow> 10 * a + c < 10 * b + d \<longleftrightarrow> a < b \<or> (a = b \<and> c < d)"
  by arith

lemma decimal_split_less:
  "(n::nat) < m \<longleftrightarrow> n div 10 < m div 10 \<or> (n div 10 = m div 10 \<and> n mod 10 < m mod 10)"
  using decimal_less_aux[of "n mod 10" "m mod 10" "n div 10" "m div 10"] by simp

lemma zero_padded_inj:
  "n < 10 ^ w \<Longrightarrow> m < 10 ^ w \<Longrightarrow> zero_padded w n = zero_padded w m \<longleftrightarrow> n = m"
proof (induction w arbitrary: n m)
  case 0
  then show ?case by simp
next
  case (Suc w)
  have "n div 10 < 10 ^ w" "m div 10 < 10 ^ w" using Suc.prems by simp_all
  then have "zero_padded w (n div 10) = zero_padded w (m div 10) \<longleftrightarrow> n div 10 = m div 10"
    by (rule Suc.IH)
  moreover have "n = m \<longleftrightarrow> n div 10 = m div 10 \<and> n mod 10 = m mod 10"
    by (rule decimal_split_eq)
  ultimately show ?case by auto
qed

lemma zero_padded_less:
  "n < 10 ^ w \<Longrightarrow> m < 10 ^ w \<Longrightarrow> text_less (zero_padded w n) (zero_padded w m) \<longleftrightarrow> n < m"
proof (induction w arbitrary: n m)
  case 0
  then show ?case by simp
next
  case (Suc w)
  have b: "n div 10 < 10 ^ w" "m div 10 < 10 ^ w" using Suc.prems by simp_all
  have ih: "text_less (zero_padded w (n div 10)) (zero_padded w (m div 10))
              \<longleftrightarrow> n div 10 < m div 10"
    using b by (rule Suc.IH)
  have eq: "zero_padded w (n div 10) = zero_padded w (m div 10) \<longleftrightarrow> n div 10 = m div 10"
    using b by (rule zero_padded_inj)
  have ar: "n < m \<longleftrightarrow> n div 10 < m div 10 \<or> (n div 10 = m div 10 \<and> n mod 10 < m mod 10)"
    by (rule decimal_split_less)
  show ?case
    by (simp add: text_less_append ih eq ar)
qed

lemma isoformat_order:
  assumes "valid_datetime a" and "valid_datetime b"
  shows "text_less (isoformat a) (isoformat b) \<longleftrightarrow> before a b"
proof -
  have y: "year a < 10 ^ 4" "year b < 10 ^ 4"
    and mo: "month a < 10 ^ 2" "month b < 10 ^ 2"
    and d: "day a < 10 ^ 2" "day b < 10 ^ 2"
    and h: "hour a < 10 ^ 2" "hour b < 10 ^ 2"
    and mi: "minute a < 10 ^ 2" "minute b < 10 ^ 2"
    and s: "second a < 10 ^ 2" "second b < 10 ^ 2"
    and us: "microsecond a < 10 ^ 6" "microsecond b < 10 ^ 6"
    using assms by (simp_all add: valid_datetime_def)
  have frac: "text_less (if microsecond a = 0 then [] else 46 # zero_padded 6 (microsecond a))
                        (if microsecond b = 0 then [] else 46 # zero_padded 6 (microsecond b))
              \<longleftrightarrow> microsecond a < microsecond b"
    using zero_padded_less[OF us] by auto
  show ?thesis
    unfolding isoformat_def before_def
    by (simp only: text_less_append length_zero_padded zero_padded_less[OF y] zero_padded_inj[OF y]
          zero_padded_less[OF mo] zero_padded_inj[OF mo] zero_padded_less[OF d] zero_padded_inj[OF d]
          zero_padded_less[OF h] zero_padded_inj[OF h] zero_padded_less[OF mi] zero_padded_inj[OF mi]
          zero_padded_less[OF s] zero_padded_inj[OF s] frac append_Cons append_Nil
          text_less.simps list.inject simp_thms less_irrefl)
qed

lemma zero_padded_numeral:
  "zero_padded (numeral k) n = zero_padded (pred_numeral k) (n div 10) @ [48 + n mod 10]"
  by (metis numeral_eq_Suc zero_padded.simps(2))

lemma zero_padded_1: "zero_padded 1 n = [48 + n mod 10]"
  by (metis One_nat_def append_Nil zero_padded.simps)

text \<open>Two readings and the texts \<^verbatim>\<open>isoformat()\<close> gives for them.\<close>

lemma isoformat_examples:
  "isoformat \<lparr>year = 2024, month = 1, day = 15, hour = 10, minute = 30, second = 0,
              microsecond = 0\<rparr>
     = [50, 48, 50, 52, 45, 48, 49, 45, 49, 53, 84, 49, 48, 58, 51, 48, 58, 48, 48]"
  "isoformat \<lparr>year = 987, month = 12, day = 31, hour = 23, minute = 59, second = 59,
              microsecond = 500\<rparr>
     = [48, 57, 56, 55, 45, 49, 50, 45, 51, 49, 84, 50, 51, 58, 53, 57, 58, 53, 57,
        46, 48, 48, 48, 53, 48, 48]"
  by (simp_all add: isoformat_def zero_padded_numeral zero_padded_1)

lemma fold_max_ge: "(b::int) \<le> fold max xs b"
  by (induction xs arbitrary: b) (auto intro: order_trans[OF max.cobounded2])

lemma fold_max_bounded: "list_all (\<lambda>x. x \<le> (b::int)) xs \<Longrightarrow> fold max xs b = b"
  by (induction xs) (auto simp: max_def)

lemma next_rowid_ok: "store_ok db \<Longrightarrow> next_rowid db = births_seq db + 1"
  by (simp add: store_ok_def next_rowid_def fold_max_bounded list_all_iff)

lemma next_rowid_gt_seq: "births_seq db < next_rowid db"
  using fold_max_ge[of "births_seq db" "map row_id (births db)"] by (simp add: next_rowid_def)

lemma except_500_simps:
  "except_500 str (Inl e) = Inl (HTTPException 500 (str e))"
  "except_500 str (Inr v) = Inr v"
  by (simp_all add: except_500_def)

lemma save_data_success:
  "save_data str now data db = (Inr v, db') \<longleftrightarrow>
     v = Saved
   \<and> father_id_type data \<in> set id_types \<and> mother_id_type data \<in> set id_types
   \<and> sqlite_int (father_id data) \<and> sqlite_int (mother_id data)
   \<and> find (same_parents (father_id data) (mother_id data)) (births db) = None
   \<and> next_rowid db \<le> max_rowid
   \<and> db' = db\<lparr>births := births db @ [new_row (isoformat now) data db],
               births_seq := next_rowid db\<rparr>"
  by (auto simp: save_data_def save_data_try_def except_500_def split: option.splits)

lemma save_data_failure:
  "save_data str now data db = (Inl e, db') \<Longrightarrow> db' = db"
  by (auto simp: save_data_def save_data_try_def except_500_def split: option.splits if_splits)

lemma wrapper_admitted:
  "rate_limit calls period name clock lm = (Inr (), lm') \<Longrightarrow> func s = (r, s')
     \<Longrightarrow> wrapper calls period name func clock (lm, s) = (r, lm', s')"
  by (simp add: wrapper_def)

lemma rate_limit_fresh:
  "0 < calls \<Longrightarrow> rate_limit calls period name clock fresh_limiter =
     (Inr (), \<lparr>last_reset = [name \<mapsto> clock], call_count = [name \<mapsto> 1]\<rparr>)"
  by (simp add: rate_limit_def fresh_limiter_def Let_def)

text \<open>
  Claim C1 (what the code does). A submission whose parent ids match a stored row
  inserts nothing, and the exception that reaches the caller has status 500, not 400:
  the \<^verbatim>\<open>HTTPException(400)\<close> that names the hospital is raised inside the
  \<^verbatim>\<open>try\<close> block and the handler's own \<^verbatim>\<open>except Exception\<close> replaces it. The
  hospital name reaches the caller only inside \<^verbatim>\<open>str(e)\<close>. The same holds behind
  the limiter, whenever it lets the call through.
\<close>

theorem duplicate_submission_raises_500:
  assumes "find (same_parents (father_id data) (mother_id data)) (births db) = Some r"
    and "father_id_type data \<in> set id_types" and "mother_id_type data \<in> set id_types"
    and "sqlite_int (father_id data)" and "sqlite_int (mother_id data)"
  shows "save_data str now data db =
           (Inl (HTTPException 500
                  (str (HTTPException 400 (duplicate_prefix @ row_hospital_name r)))), db)
       \<and> (rate_limit 10 60 ''save_data'' clock lm = (Inr (), lm') \<longrightarrow>
            save_data_endpoint str clock now data (lm, db) =
              (Inl (HTTPException 500
                     (str (HTTPException 400 (duplicate_prefix @ row_hospital_name r)))),
               lm', db))"
proof -
  have body: "save_data str now data db =
           (Inl (HTTPException 500
                  (str (HTTPException 400 (duplicate_prefix @ row_hospital_name r)))), db)"
    using assms by (simp add: save_data_def save_data_try_def except_500_def)
  then show ?thesis
    by (simp add: save_data_endpoint_def wrapper_admitted)
qed

theorem duplicate_submission_raises_500_witness:
  "save_data_endpoint (\<lambda>e. case e of HTTPException s d \<Rightarrow> d | _ \<Rightarrow> []) 0
     \<lparr>year = 2024, month = 4, day = 1, hour = 12, minute = 0, second = 0, microsecond = 500\<rparr>
     \<lparr>father_id_type = civil_registry_number, father_id = 10,
      mother_id_type = unified_number, mother_id = 20,
      mother_name = [78, 78], hospital_name = [75, 75],
      birth_date = [50, 48, 50, 52, 45, 48, 49, 45, 48, 50]\<rparr>
     (fresh_limiter,
      \<lparr>births = [\<lparr>row_id = 1, row_father_id = 10, row_mother_id = 20,
         row_mother_name = [77, 77], row_hospital_name = [72, 72],
         row_birth_date = [50, 48, 50, 52, 45, 48, 49, 45, 48, 49],
         row_created_at = isoformat \<lparr>year = 2024, month = 1, day = 15, hour = 10, minute = 30, second = 0, microsecond = 0\<rparr>\<rparr>], births_seq = 1\<rparr>)
   = (Inl (HTTPException 500 (duplicate_prefix @ [72, 72])),
      \<lparr>last_reset = [''save_data'' \<mapsto> 0], call_count = [''save_data'' \<mapsto> 1]\<rparr>,
      \<lparr>births = [\<lparr>row_id = 1, row_father_id = 10, row_mother_id = 20,
         row_mother_name = [77, 77], row_hospital_name = [72, 72],
         row_birth_date = [50, 48, 50, 52, 45, 48, 49, 45, 48, 49],
         row_created_at = isoformat \<lparr>year = 2024, month = 1, day = 15, hour = 10, minute = 30, second = 0, microsecond = 0\<rparr>\<rparr>], births_seq = 1\<rparr>)"
  using duplicate_submission_raises_500[where
      data = "\<lparr>father_id_type = civil_registry_number, father_id = 10,
      mother_id_type = unified_number, mother_id = 20,
      mother_name = [78, 78], hospital_name = [75, 75],
      birth_date = [50, 48, 50, 52, 45, 48, 49, 45, 48, 50]\<rparr>"
      and db = "\<lparr>births = [\<lparr>row_id = 1, row_father_id = 10, row_mother_id = 20,
         row_mother_name = [77, 77], row_hospital_name = [72, 72],
         row_birth_date = [50, 48, 50, 52, 45, 48, 49, 45, 48, 49],
         row_created_at = isoformat \<lparr>year = 2024, month = 1, day = 15, hour = 10, minute = 30, second = 0, microsecond = 0\<rparr>\<rparr>], births_seq = 1\<rparr>"
      and r = "\<lparr>row_id = 1, row_father_id = 10, row_mother_id = 20,
         row_mother_name = [77, 77], row_hospital_name = [72, 72],
         row_birth_date = [50, 48, 50, 52, 45, 48, 49, 45, 48, 49],
         row_created_at = isoformat \<lparr>year = 2024, month = 1, day = 15, hour = 10, minute = 30, second = 0, microsecond = 0\<rparr>\<rparr>"
      and clock = 0 and lm = fresh_limiter
      and lm' = "\<lparr>last_reset = [''save_data'' \<mapsto> 0], call_count = [''save_data'' \<mapsto> 1]\<rparr>"
      and str = "\<lambda>e. case e of HTTPException s d \<Rightarrow> d | _ \<Rightarrow> []"
      and now = "\<lparr>year = 2024, month = 4, day = 1, hour = 12, minute = 0, second = 0, microsecond = 500\<rparr>"]
  by (simp add: same_parents_def id_types_def sqlite_int_def rate_limit_fresh)

text \<open>
  Claim C2 (what the code does). A search returns exactly the rows matching both ids,
  in table order, when there is one; when there is none, the exception that reaches
  the caller has status 500, not 404: the \<^verbatim>\<open>HTTPException(404)\<close> is raised inside
  the \<^verbatim>\<open>try\<close> block and replaced by the handler's own \<^verbatim>\<open>except Exception\<close>.
  The same holds behind the limiter, whenever it lets the call through.
\<close>

theorem search_without_match_raises_500:
  assumes "sqlite_int f" and "sqlite_int m"
  shows "search_data str f m db =
           ((if filter (same_parents f m) (births db) = []
             then Inl (HTTPException 500 (str (HTTPException 404 not_found_detail)))
             else Inr (Data (filter (same_parents f m) (births db)))), db)
       \<and> (rate_limit 20 60 ''search_data'' clock lm = (Inr (), lm') \<longrightarrow>
            search_data_endpoint str clock f m (lm, db) =
              ((if filter (same_parents f m) (births db) = []
                then Inl (HTTPException 500 (str (HTTPException 404 not_found_detail)))
                else Inr (Data (filter (same_parents f m) (births db)))), lm', db))"
proof -
  have body: "search_data str f m db =
           ((if filter (same_parents f m) (births db) = []
             then Inl (HTTPException 500 (str (HTTPException 404 not_found_detail)))
             else Inr (Data (filter (same_parents f m) (births db)))), db)"
    using assms by (simp add: search_data_def search_data_try_def except_500_def Let_def)
  then show ?thesis
    by (simp add: search_data_endpoint_def wrapper_admitted)
qed

theorem search_without_match_raises_500_witness:
  "search_data_endpoint (\<lambda>e. case e of HTTPException s d \<Rightarrow> d | _ \<Rightarrow> []) 0 1 2
     (fresh_limiter, init_db)
   = (Inl (HTTPException 500 not_found_detail),
      \<lparr>last_reset = [''search_data'' \<mapsto> 0], call_count = [''search_data'' \<mapsto> 1]\<rparr>,
      init_db)"
  using search_without_match_raises_500[where f = 1 and m = 2 and db = init_db
      and str = "\<lambda>e. case e of HTTPException s d \<Rightarrow> d | _ \<Rightarrow> []"
      and clock = 0 and lm = fresh_limiter
      and lm' = "\<lparr>last_reset = [''search_data'' \<mapsto> 0],
                   call_count = [''search_data'' \<mapsto> 1]\<rparr>"]
  by (simp add: sqlite_int_def init_db_def rate_limit_fresh)

lemma find_snoc:
  "find P (xs @ [x]) = (case find P xs of Some y \<Rightarrow> Some y | None \<Rightarrow> if P x then Some x else None)"
  by (induction xs) auto

text \<open>
  Claim C10. After a submission has been saved, any submission with the same father id
  and mother id is rejected as a duplicate, naming the hospital of the first, whatever
  its two id types are, and the table is left as it was (the duplicate error arrives
  wrapped in the status 500 of claim C1). The saved row does not depend
  on the id types: the first submission with any other pair of valid id types gives
  the same table. (The type \<open>row\<close> has no id-type column.)
\<close>

theorem id_types_outside_duplicate_key:
  assumes "save_data str now1 d1 db = (Inr v, db1)"
    and "father_id d2 = father_id d1" and "mother_id d2 = mother_id d1"
    and "father_id_type d2 \<in> set id_types" and "mother_id_type d2 \<in> set id_types"
  shows "save_data str now2 d2 db1 =
           (Inl (HTTPException 500
                  (str (HTTPException 400 (duplicate_prefix @ hospital_name d1)))), db1)
       \<and> (\<forall>t1\<in>set id_types. \<forall>t2\<in>set id_types.
            save_data str now1 (d1\<lparr>father_id_type := t1, mother_id_type := t2\<rparr>) db
              = (Inr v, db1))"
proof -
  from assms(1) have ok:
    "v = Saved" "sqlite_int (father_id d1)" "sqlite_int (mother_id d1)"
    "find (same_parents (father_id d1) (mother_id d1)) (births db) = None"
    "next_rowid db \<le> max_rowid"
    "db1 = db\<lparr>births := births db @ [new_row (isoformat now1) d1 db],
               births_seq := next_rowid db\<rparr>"
    by (simp_all add: save_data_success)
  have hit: "find (same_parents (father_id d2) (mother_id d2)) (births db1)
               = Some (new_row (isoformat now1) d1 db)"
    using ok(4,6) assms(2,3) by (simp add: find_snoc same_parents_def new_row_def)
  have second: "save_data str now2 d2 db1 =
           (Inl (HTTPException 500
                  (str (HTTPException 400 (duplicate_prefix @ hospital_name d1)))), db1)"
    using hit assms(2-5) ok(2,3)
    by (simp add: save_data_def save_data_try_def except_500_def new_row_def)
  have same: "\<forall>t1\<in>set id_types. \<forall>t2\<in>set id_types.
            save_data str now1 (d1\<lparr>father_id_type := t1, mother_id_type := t2\<rparr>) db
              = (Inr v, db1)"
    using ok by (simp add: save_data_success new_row_def)
  from second same show ?thesis by blast
qed

theorem id_types_outside_duplicate_key_witness:
  "save_data (\<lambda>e. case e of HTTPException s d \<Rightarrow> d | _ \<Rightarrow> [])
     \<lparr>year = 2024, month = 4, day = 1, hour = 12, minute = 0, second = 0, microsecond = 500\<rparr>
     \<lparr>father_id_type = civil_registry_number, father_id = 10,
      mother_id_type = unified_number, mother_id = 20,
      mother_name = [78, 78], hospital_name = [75, 75],
      birth_date = [50, 48, 50, 52, 45, 48, 49, 45, 48, 50]\<rparr>
     \<lparr>births = [\<lparr>row_id = 1, row_father_id = 10, row_mother_id = 20,
         row_mother_name = [77, 77], row_hospital_name = [72, 72],
         row_birth_date = [50, 48, 50, 52, 45, 48, 49, 45, 48, 49],
         row_created_at = isoformat \<lparr>year = 2024, month = 1, day = 15, hour = 10, minute = 30, second = 0, microsecond = 0\<rparr>\<rparr>], births_seq = 1\<rparr>
   = (Inl (HTTPException 500 (duplicate_prefix @ [72, 72])),
      \<lparr>births = [\<lparr>row_id = 1, row_father_id = 10, row_mother_id = 20,
         row_mother_name = [77, 77], row_hospital_name = [72, 72],
         row_birth_date = [50, 48, 50, 52, 45, 48, 49, 45, 48, 49],
         row_created_at = isoformat \<lparr>year = 2024, month = 1, day = 15, hour = 10, minute = 30, second = 0, microsecond = 0\<rparr>\<rparr>], births_seq = 1\<rparr>)"
proof -
  have first: "save_data (\<lambda>e. case e of HTTPException s d \<Rightarrow> d | _ \<Rightarrow> [])
     \<lparr>year = 2024, month = 1, day = 15, hour = 10, minute = 30, second = 0, microsecond = 0\<rparr>
     \<lparr>father_id_type = unified_number, father_id = 10,
      mother_id_type = civil_registry_number, mother_id = 20,
      mother_name = [77, 77], hospital_name = [72, 72],
      birth_date = [50, 48, 50, 52, 45, 48, 49, 45, 48, 49]\<rparr> init_db
   = (Inr Saved,
      \<lparr>births = [\<lparr>row_id = 1, row_father_id = 10, row_mother_id = 20,
         row_mother_name = [77, 77], row_hospital_name = [72, 72],
         row_birth_date = [50, 48, 50, 52, 45, 48, 49, 45, 48, 49],
         row_created_at = isoformat \<lparr>year = 2024, month = 1, day = 15, hour = 10, minute = 30, second = 0, microsecond = 0\<rparr>\<rparr>], births_seq = 1\<rparr>)"
    by (simp add: save_data_success init_db_def id_types_def sqlite_int_def next_rowid_def
          max_rowid_def new_row_def)
  show ?thesis
    using id_types_outside_duplicate_key[OF first, where
        ?d2.0 = "\<lparr>father_id_type = civil_registry_number, father_id = 10,
      mother_id_type = unified_number, mother_id = 20,
      mother_name = [78, 78], hospital_name = [75, 75],
      birth_date = [50, 48, 50, 52, 45, 48, 49, 45, 48, 50]\<rparr>"
        and ?now2.0 = "\<lparr>year = 2024, month = 4, day = 1, hour = 12, minute = 0, second = 0, microsecond = 500\<rparr>"]
    by (simp add: id_types_def)
qed

lemma run_op_store_ok:
  assumes "store_ok db"
  shows "store_ok (snd (run_op str minus_days x db))
       \<and> births_seq db \<le> births_seq (snd (run_op str minus_days x db))
       \<and> set (births (snd (run_op str minus_days x db)))
            \<subseteq> set (births db) \<union> set (inserted str x db)
       \<and> (\<forall>r\<in>set (inserted str x db).
            births_seq db < row_id r \<and> row_id r \<le> births_seq (snd (run_op str minus_days x db)))"
proof (cases x)
  case (Submit now data)
  show ?thesis
  proof (cases "save_data str now data db")
    case (Pair res db')
    show ?thesis
    proof (cases res)
      case (Inl e)
      then have "db' = db" using Pair save_data_failure by blast
      then show ?thesis using Submit Pair Inl assms by simp
    next
      case (Inr v)
      then have db': "db' = db\<lparr>births := births db @ [new_row (isoformat now) data db],
               births_seq := next_rowid db\<rparr>"
        using Pair by (simp add: save_data_success)
      have nx: "next_rowid db = births_seq db + 1" using assms by (rule next_rowid_ok)
      show ?thesis using Submit Pair Inr assms db' nx
        by (auto simp: store_ok_def new_row_def)
    qed
  qed
next
  case (Purge now)
  then show ?thesis using assms
    by (auto simp: delete_old_entries_def Let_def store_ok_def distinct_map_filter)
next
  case (Search f m)
  then show ?thesis using assms by (simp add: search_data_def)
qed

lemma persisted_ids:
  "store_ok db \<Longrightarrow>
     sorted_wrt (<) (map row_id (persisted str minus_days ops db))
   \<and> (\<forall>r\<in>set (persisted str minus_days ops db). births_seq db < row_id r)
   \<and> store_ok (run_ops str minus_days ops db)
   \<and> set (births (run_ops str minus_days ops db))
        \<subseteq> set (births db) \<union> set (persisted str minus_days ops db)"
proof (induction ops arbitrary: db)
  case Nil
  then show ?case by simp
next
  case (Cons x xs)
  let ?db' = "snd (run_op str minus_days x db)"
  note step = run_op_store_ok[OF Cons.prems, of str minus_days x]
  from step have ok': "store_ok ?db'" by blast
  note ih = Cons.IH[OF ok']
  have later: "\<forall>r\<in>set (persisted str minus_days xs ?db'). births_seq ?db' < row_id r"
    using ih by blast
  have a: "sorted_wrt (<) (map row_id (persisted str minus_days (x # xs) db))"
  proof -
    have "sorted_wrt (<) (map row_id (inserted str x db))"
      by (cases x) (auto split: sum.splits)
    moreover have "\<forall>r\<in>set (inserted str x db).
                     \<forall>r'\<in>set (persisted str minus_days xs ?db'). row_id r < row_id r'"
      using step later by fastforce
    ultimately show ?thesis using ih by (simp add: sorted_wrt_append)
  qed
  have b: "\<forall>r\<in>set (persisted str minus_days (x # xs) db). births_seq db < row_id r"
    using step later by fastforce
  have c: "store_ok (run_ops str minus_days (x # xs) db)" using ih by simp
  have d: "set (births (run_ops str minus_days (x # xs) db))
        \<subseteq> set (births db) \<union> set (persisted str minus_days (x # xs) db)"
    using step ih by auto
  from a b c d show ?case by blast
qed

text \<open>
  Claim C9. Along any history of submissions, purges and searches from a well-formed
  table, the ids given to the inserted rows are strictly increasing; they differ from
  one another and from every id of the initial table, whether or not the rows that
  carried them have been purged in between; and every row of the resulting table is
  an initial or an inserted one.
\<close>

theorem row_ids_never_reused:
  assumes "store_ok db"
  shows "sorted_wrt (<) (map row_id (persisted str minus_days ops db))
       \<and> distinct (map row_id (births db @ persisted str minus_days ops db))
       \<and> set (births (run_ops str minus_days ops db))
            \<subseteq> set (births db) \<union> set (persisted str minus_days ops db)
       \<and> store_ok (run_ops str minus_days ops db)"
proof -
  note p = persisted_ids[OF assms, of str minus_days ops]
  have "distinct (map row_id (persisted str minus_days ops db))"
    using p strict_sorted_iff[of "map row_id (persisted str minus_days ops db)"] by blast
  moreover have "\<forall>r\<in>set (births db). \<forall>r'\<in>set (persisted str minus_days ops db).
                   row_id r \<noteq> row_id r'"
    using p assms by (fastforce simp: store_ok_def)
  ultimately have "distinct (map row_id (births db @ persisted str minus_days ops db))"
    using assms by (auto simp: store_ok_def)
  with p show ?thesis by blast
qed

theorem row_ids_never_reused_witness:
  "store_ok init_db
   \<and> map row_id (persisted (\<lambda>e. []) (\<lambda>d n. d\<lparr>month := 3, day := 2\<rparr>)
        [Submit \<lparr>year = 2024, month = 1, day = 15, hour = 10, minute = 30, second = 0, microsecond = 0\<rparr>
           \<lparr>father_id_type = unified_number, father_id = 10,
      mother_id_type = civil_registry_number, mother_id = 20,
      mother_name = [77, 77], hospital_name = [72, 72],
      birth_date = [50, 48, 50, 52, 45, 48, 49, 45, 48, 49]\<rparr>,
         Purge \<lparr>year = 2024, month = 4, day = 1, hour = 12, minute = 0, second = 0, microsecond = 500\<rparr>,
         Submit \<lparr>year = 2024, month = 4, day = 1, hour = 12, minute = 0, second = 0, microsecond = 500\<rparr>
           \<lparr>father_id_type = civil_registry_number, father_id = 10,
      mother_id_type = unified_number, mother_id = 20,
      mother_name = [78, 78], hospital_name = [75, 75],
      birth_date = [50, 48, 50, 52, 45, 48, 49, 45, 48, 50]\<rparr>] init_db)
     = [1, 2]
   \<and> map row_id (births (run_ops (\<lambda>e. []) (\<lambda>d n. d\<lparr>month := 3, day := 2\<rparr>)
        [Submit \<lparr>year = 2024, month = 1, day = 15, hour = 10, minute = 30, second = 0, microsecond = 0\<rparr>
           \<lparr>father_id_type = unified_number, father_id = 10,
      mother_id_type = civil_registry_number, mother_id = 20,
      mother_name = [77, 77], hospital_name = [72, 72],
      birth_date = [50, 48, 50, 52, 45, 48, 49, 45, 48, 49]\<rparr>,
         Purge \<lparr>year = 2024, month = 4, day = 1, hour = 12, minute = 0, second = 0, microsecond = 500\<rparr>,
         Submit \<lparr>year = 2024, month = 4, day = 1, hour = 12, minute = 0, second = 0, microsecond = 500\<rparr>
           \<lparr>father_id_type = civil_registry_number, father_id = 10,
      mother_id_type = unified_number, mother_id = 20,
      mother_name = [78, 78], hospital_name = [75, 75],
      birth_date = [50, 48, 50, 52, 45, 48, 49, 45, 48, 50]\<rparr>] init_db))
     = [2]"
proof -
  have ok: "store_ok init_db" by (simp add: store_ok_def init_db_def)
  from row_ids_never_reused[OF ok] ok show ?thesis
    by (simp add: save_data_def save_data_try_def except_500_def delete_old_entries_def
          init_db_def id_types_def sqlite_int_def next_rowid_def max_rowid_def new_row_def
          same_parents_def isoformat_order valid_datetime_def before_def Let_def)
qed

text \<open>
  Claim C7. The cutoff is the ISO text of the clock reading minus 30 days. The purge
  keeps, in order and unchanged, the rows whose \<^verbatim>\<open>created_at\<close> does not precede the
  cutoff in SQLite's order of texts, and removes exactly the others. For a row whose
  \<^verbatim>\<open>created_at\<close> is the ISO text of a datetime, as \<^verbatim>\<open>save_data\<close> writes it, that is:
  the row is kept exactly when its datetime is not before the cutoff datetime. The
  purge leaves the id counter alone, always succeeds and returns the number of rows
  removed; with no row to remove it returns 0 and changes nothing, and so does a purge
  repeated at the same clock reading.
\<close>

theorem purge_deletes_rows_before_cutoff:
  assumes "delete_old_entries str minus_days now db = (res, db')"
  shows "births db' = filter (\<lambda>r. \<not> text_less (row_created_at r)
                                       (isoformat (minus_days now 30))) (births db)
       \<and> (\<forall>r. r \<in> set (births db) \<and> r \<notin> set (births db') \<longleftrightarrow>
              r \<in> set (births db)
            \<and> text_less (row_created_at r) (isoformat (minus_days now 30)))
       \<and> (valid_datetime (minus_days now 30) \<longrightarrow>
            (\<forall>r\<in>set (births db). \<forall>t. valid_datetime t \<and> row_created_at r = isoformat t \<longrightarrow>
               (r \<in> set (births db') \<longleftrightarrow> \<not> before t (minus_days now 30))))
       \<and> births_seq db' = births_seq db
       \<and> res = Inr (Deleted (int (length (births db)) - int (length (births db'))))
       \<and> ((\<forall>r\<in>set (births db).
              \<not> text_less (row_created_at r) (isoformat (minus_days now 30)))
            \<longrightarrow> res = Inr (Deleted 0) \<and> db' = db)
       \<and> delete_old_entries str minus_days now db' = (Inr (Deleted 0), db')"
proof -
  let ?old = "\<lambda>r. text_less (row_created_at r) (isoformat (minus_days now 30))"
  have db': "db' = db\<lparr>births := filter (\<lambda>r. \<not> ?old r) (births db)\<rparr>"
    and res: "res = Inr (Deleted (int (length (filter ?old (births db)))))"
    using assms by (simp_all add: delete_old_entries_def except_500_def Let_def)
  have len: "length (filter ?old (births db)) + length (filter (\<lambda>r. \<not> ?old r) (births db))
               = length (births db)"
    by (rule sum_length_filter_compl)
  have a: "births db' = filter (\<lambda>r. \<not> ?old r) (births db)" using db' by simp
  have b: "\<forall>r. r \<in> set (births db) \<and> r \<notin> set (births db') \<longleftrightarrow>
              r \<in> set (births db) \<and> ?old r"
    using a by auto
  have c: "valid_datetime (minus_days now 30) \<longrightarrow>
            (\<forall>r\<in>set (births db). \<forall>t. valid_datetime t \<and> row_created_at r = isoformat t \<longrightarrow>
               (r \<in> set (births db') \<longleftrightarrow> \<not> before t (minus_days now 30)))"
    using a by (auto simp: isoformat_order)
  have d: "births_seq db' = births_seq db" using db' by simp
  have e: "res = Inr (Deleted (int (length (births db)) - int (length (births db'))))"
    using res len a by simp
  have f: "(\<forall>r\<in>set (births db). \<not> ?old r) \<longrightarrow> res = Inr (Deleted 0) \<and> db' = db"
    using res db' by (simp add: filter_id_conv filter_empty_conv)
  have g: "delete_old_entries str minus_days now db' = (Inr (Deleted 0), db')"
    using db' by (simp add: delete_old_entries_def except_500_def Let_def)
  from a b c d e f g show ?thesis by blast
qed

theorem purge_deletes_rows_before_cutoff_witness:
  "delete_old_entries (\<lambda>e. []) (\<lambda>d n. d\<lparr>month := 3, day := 2\<rparr>)
     \<lparr>year = 2024, month = 4, day = 1, hour = 12, minute = 0, second = 0, microsecond = 500\<rparr>
     \<lparr>births = [\<lparr>row_id = 1, row_father_id = 10, row_mother_id = 20,
         row_mother_name = [77, 77], row_hospital_name = [72, 72],
         row_birth_date = [50, 48, 50, 52, 45, 48, 49, 45, 48, 49],
         row_created_at = isoformat \<lparr>year = 2024, month = 1, day = 15, hour = 10, minute = 30, second = 0, microsecond = 0\<rparr>\<rparr>,
        \<lparr>row_id = 2, row_father_id = 11, row_mother_id = 21,
         row_mother_name = [78, 78], row_hospital_name = [75, 75],
         row_birth_date = [50, 48, 50, 52, 45, 48, 49, 45, 48, 50],
         row_created_at = isoformat \<lparr>year = 2024, month = 3, day = 20, hour = 8, minute = 0, second = 0, microsecond = 250000\<rparr>\<rparr>], births_seq = 2\<rparr>
   = (Inr (Deleted 1),
      \<lparr>births = [\<lparr>row_id = 2, row_father_id = 11, row_mother_id = 21,
         row_mother_name = [78, 78], row_hospital_name = [75, 75],
         row_birth_date = [50, 48, 50, 52, 45, 48, 49, 45, 48, 50],
         row_created_at = isoformat \<lparr>year = 2024, month = 3, day = 20, hour = 8, minute = 0, second = 0, microsecond = 250000\<rparr>\<rparr>], births_seq = 2\<rparr>)
   \<and> delete_old_entries (\<lambda>e. []) (\<lambda>d n. d\<lparr>month := 3, day := 2\<rparr>)
     \<lparr>year = 2024, month = 4, day = 1, hour = 12, minute = 0, second = 0, microsecond = 500\<rparr>
     \<lparr>births = [\<lparr>row_id = 2, row_father_id = 11, row_mother_id = 21,
         row_mother_name = [78, 78], row_hospital_name = [75, 75],
         row_birth_date = [50, 48, 50, 52, 45, 48, 49, 45, 48, 50],
         row_created_at = isoformat \<lparr>year = 2024, month = 3, day = 20, hour = 8, minute = 0, second = 0, microsecond = 250000\<rparr>\<rparr>], births_seq = 2\<rparr>
   = (Inr (Deleted 0),
      \<lparr>births = [\<lparr>row_id = 2, row_father_id = 11, row_mother_id = 21,
         row_mother_name = [78, 78], row_hospital_name = [75, 75],
         row_birth_date = [50, 48, 50, 52, 45, 48, 49, 45, 48, 50],
         row_created_at = isoformat \<lparr>year = 2024, month = 3, day = 20, hour = 8, minute = 0, second = 0, microsecond = 250000\<rparr>\<rparr>], births_seq = 2\<rparr>)"
proof -
  have run: "delete_old_entries (\<lambda>e. []) (\<lambda>d n. d\<lparr>month := 3, day := 2\<rparr>)
     \<lparr>year = 2024, month = 4, day = 1, hour = 12, minute = 0, second = 0, microsecond = 500\<rparr>
     \<lparr>births = [\<lparr>row_id = 1, row_father_id = 10, row_mother_id = 20,
         row_mother_name = [77, 77], row_hospital_name = [72, 72],
         row_birth_date = [50, 48, 50, 52, 45, 48, 49, 45, 48, 49],
         row_created_at = isoformat \<lparr>year = 2024, month = 1, day = 15, hour = 10, minute = 30, second = 0, microsecond = 0\<rparr>\<rparr>,
        \<lparr>row_id = 2, row_father_id = 11, row_mother_id = 21,
         row_mother_name = [78, 78], row_hospital_name = [75, 75],
         row_birth_date = [50, 48, 50, 52, 45, 48, 49, 45, 48, 50],
         row_created_at = isoformat \<lparr>year = 2024, month = 3, day = 20, hour = 8, minute = 0, second = 0, microsecond = 250000\<rparr>\<rparr>], births_seq = 2\<rparr>
   = (Inr (Deleted 1),
      \<lparr>births = [\<lparr>row_id = 2, row_father_id = 11, row_mother_id = 21,
         row_mother_name = [78, 78], row_hospital_name = [75, 75],
         row_birth_date = [50, 48, 50, 52, 45, 48, 49, 45, 48, 50],
         row_created_at = isoformat \<lparr>year = 2024, month = 3, day = 20, hour = 8, minute = 0, second = 0, microsecond = 250000\<rparr>\<rparr>], births_seq = 2\<rparr>)"
    by (simp add: delete_old_entries_def except_500_def isoformat_order valid_datetime_def
          before_def Let_def)
  from purge_deletes_rows_before_cutoff[OF run] run show ?thesis by blast
qed

end
